theory Spec2Isabelle
  imports Main
begin

section \<open>The onboard SARA4 PPP modem adapter of the MTS Dragonfly L471QG target\<close>

text \<open>
  The development embeds \<^verbatim>\<open>ONBOARD_SARA4_PPP.cpp\<close>: the two power operations
  \<^verbatim>\<open>power_on\<close> and \<^verbatim>\<open>power_off\<close> and the accessor
  \<^verbatim>\<open>CellularDevice::get_target_default_instance\<close> with its two function-local
  statics. Every call the file makes into another translation unit (the four
  onboard-modem hooks, the two constructors, the trace macro and
  \<^verbatim>\<open>set_flow_control\<close>) is recorded, in program order, in a trace that is part of the
  process state.
\<close>

subsection \<open>Types the file takes from its headers\<close>

text \<open>
  Modelled from the spec: the \<^verbatim>\<open>PinName\<close> enumeration of the target's
  \<^verbatim>\<open>PinNames.h\<close> is not among the sources. A pin is either the distinguished value
  \<^verbatim>\<open>NC\<close> ("not connected") or a numbered pin of the package.
\<close>

datatype PinName = NC | Pin nat

text \<open>
  Modelled from the spec: \<^verbatim>\<open>nsapi_error_t\<close> is the signed result code of
  \<^verbatim>\<open>nsapi_types.h\<close>, and \<^verbatim>\<open>NSAPI_ERROR_OK\<close> is its success value, zero.
\<close>

type_synonym nsapi_error_t = int

definition NSAPI_ERROR_OK :: nsapi_error_t where
  "NSAPI_ERROR_OK = 0"

text \<open>
  Modelled from the spec: the mode argument of the flow-control call. The enumeration
  \<^verbatim>\<open>SerialBase::Flow\<close> is not among the sources; the accessor only uses its value
  \<^verbatim>\<open>RTSCTS\<close>.
\<close>

datatype Flow = Disabled | RTS | CTS | RTSCTS

text \<open>
  The storage of the two function-local statics of the accessor. Their addresses are fixed
  for the life-time of the process, and they are different objects.
\<close>

datatype addr = Static_serial | Static_device

text \<open>
  Modelled from the spec: the serial transport \<^verbatim>\<open>UARTSerial\<close> is constructed from a
  transmit pin, a receive pin and a baud rate, and has a flow-control setting made of a mode
  and two pins. The class itself is not among the sources.
\<close>

record UARTSerial =
  tx :: PinName
  rx :: PinName
  baud :: int
  flow :: Flow
  flow1 :: PinName
  flow2 :: PinName

text \<open>
  The adapter class. Its constructor passes the file handle on to the base class
  \<^verbatim>\<open>SARA4_PPP\<close> and has an empty body, so the handle is all an instance holds here.
\<close>

record ONBOARD_SARA4_PPP =
  fh :: addr

subsection \<open>Configuration and the hooks\<close>

text \<open>
  The preprocessor symbols the file reads. \<^verbatim>\<open>DEVICE_SERIAL_FC\<close> is the feature flag
  tested by \<^verbatim>\<open>#if\<close>; the others are the pin names and the baud rate of the target
  configuration.
\<close>

record config =
  DEVICE_SERIAL_FC :: bool
  MDMTXD :: PinName
  MDMRXD :: PinName
  MDMRTS :: PinName
  MDMCTS :: PinName
  MBED_CONF_SARA4_PPP_BAUDRATE :: int

text \<open>
  Modelled from the spec: the four power-sequencing hooks of \<^verbatim>\<open>onboard_modem_api.h\<close>,
  whose bodies are not among the sources. They take no argument and return \<^verbatim>\<open>void\<close>:
  all a hook can do is change the hardware. The hardware state is a type parameter and each
  hook is an arbitrary function on it.
\<close>

record 'hw onboard_modem_api =
  onboard_modem_init :: "'hw \<Rightarrow> 'hw"
  onboard_modem_deinit :: "'hw \<Rightarrow> 'hw"
  onboard_modem_power_up :: "'hw \<Rightarrow> 'hw"
  onboard_modem_power_down :: "'hw \<Rightarrow> 'hw"

subsection \<open>Process state\<close>

datatype event =
    Ev_onboard_modem_init
  | Ev_onboard_modem_power_up
  | Ev_onboard_modem_power_down
  | Ev_onboard_modem_deinit
  | Ev_UARTSerial_ctor PinName PinName int
  | Ev_tr_info string PinName PinName
  | Ev_set_flow_control Flow PinName PinName
  | Ev_ONBOARD_SARA4_PPP_ctor addr

text \<open>
  A function-local static is \<open>None\<close> until control first passes through its declaration
  and holds the constructed object from then on.
\<close>

record 'hw process =
  serial :: "UARTSerial option"
  device :: "ONBOARD_SARA4_PPP option"
  trace :: "event list"
  hw :: 'hw

definition init_process :: "'hw \<Rightarrow> 'hw process" where
  "init_process h = \<lparr>serial = None, device = None, trace = [], hw = h\<rparr>"

definition emit :: "event \<Rightarrow> 'hw process \<Rightarrow> 'hw process" where
  "emit e s = s\<lparr>trace := trace s @ [e]\<rparr>"

definition call_hook :: "event \<Rightarrow> ('hw \<Rightarrow> 'hw) \<Rightarrow> 'hw process \<Rightarrow> 'hw process" where
  "call_hook e f s = emit e (s\<lparr>hw := f (hw s)\<rparr>)"

subsection \<open>The power operations\<close>

definition power_on :: "'hw onboard_modem_api \<Rightarrow> 'hw process \<Rightarrow> nsapi_error_t \<times> 'hw process" where
  "power_on api s =
     (let s1 = call_hook Ev_onboard_modem_init (onboard_modem_init api) s;
          s2 = call_hook Ev_onboard_modem_power_up (onboard_modem_power_up api) s1
      in (NSAPI_ERROR_OK, s2))"

definition power_off :: "'hw onboard_modem_api \<Rightarrow> 'hw process \<Rightarrow> nsapi_error_t \<times> 'hw process" where
  "power_off api s =
     (let s1 = call_hook Ev_onboard_modem_power_down (onboard_modem_power_down api) s;
          s2 = call_hook Ev_onboard_modem_deinit (onboard_modem_deinit api) s1
      in (NSAPI_ERROR_OK, s2))"

subsection \<open>The accessor\<close>

text \<open>
  Modelled from the spec: the constructor of the transport, its member
  \<^verbatim>\<open>set_flow_control\<close> on the static \<^verbatim>\<open>serial\<close>, and the trace macro
  \<^verbatim>\<open>tr_info\<close>, none of which is among the sources. The constructor binds the two pins and
  the baud rate and leaves flow control off; \<^verbatim>\<open>set_flow_control\<close> stores the mode and the
  two pins in the transport; \<^verbatim>\<open>tr_info\<close> has no effect on the statics. Each of them is
  recorded in the trace where the file invokes it.
\<close>

definition UARTSerial_ctor :: "PinName \<Rightarrow> PinName \<Rightarrow> int \<Rightarrow> UARTSerial" where
  "UARTSerial_ctor t r b = \<lparr>tx = t, rx = r, baud = b, flow = Disabled, flow1 = NC, flow2 = NC\<rparr>"

definition set_flow_control :: "Flow \<Rightarrow> PinName \<Rightarrow> PinName \<Rightarrow> 'hw process \<Rightarrow> 'hw process" where
  "set_flow_control m p1 p2 s =
     emit (Ev_set_flow_control m p1 p2)
       (s\<lparr>serial := map_option (\<lambda>u. u\<lparr>flow := m, flow1 := p1, flow2 := p2\<rparr>) (serial s)\<rparr>)"

definition tr_info :: "string \<Rightarrow> PinName \<Rightarrow> PinName \<Rightarrow> 'hw process \<Rightarrow> 'hw process" where
  "tr_info fmt a b s = emit (Ev_tr_info fmt a b) s"

text \<open>The declaration \<^verbatim>\<open>static UARTSerial serial(MDMTXD, MDMRXD, baud)\<close>.\<close>

definition static_serial :: "config \<Rightarrow> 'hw process \<Rightarrow> 'hw process" where
  "static_serial cfg s =
     (case serial s of
        Some u \<Rightarrow> s
      | None \<Rightarrow>
          emit (Ev_UARTSerial_ctor (MDMTXD cfg) (MDMRXD cfg) (MBED_CONF_SARA4_PPP_BAUDRATE cfg))
            (s\<lparr>serial :=
                 Some (UARTSerial_ctor (MDMTXD cfg) (MDMRXD cfg) (MBED_CONF_SARA4_PPP_BAUDRATE cfg))\<rparr>))"

text \<open>The declaration \<^verbatim>\<open>static ONBOARD_SARA4_PPP device(&serial)\<close>.\<close>

definition static_device :: "'hw process \<Rightarrow> 'hw process" where
  "static_device s =
     (case device s of
        Some d \<Rightarrow> s
      | None \<Rightarrow>
          emit (Ev_ONBOARD_SARA4_PPP_ctor Static_serial)
            (s\<lparr>device := Some \<lparr>fh = Static_serial\<rparr>\<rparr>))"

definition get_target_default_instance :: "config \<Rightarrow> 'hw process \<Rightarrow> addr \<times> 'hw process" where
  "get_target_default_instance cfg s =
     (let s1 = static_serial cfg s;
          s2 = (if DEVICE_SERIAL_FC cfg then
                  (if MDMRTS cfg \<noteq> NC \<and> MDMCTS cfg \<noteq> NC then
                     set_flow_control RTSCTS (MDMRTS cfg) (MDMCTS cfg)
                       (tr_info ''Modem flow control: RTS %d CTS %d'' (MDMRTS cfg) (MDMCTS cfg) s1)
                   else s1)
                else s1);
          s3 = static_device s2
      in (Static_device, s3))"

subsection \<open>Clients\<close>

text \<open>
  A client of the file is a finite sequence of calls of its three operations, in any order.
  Neither power operation reads its \<^verbatim>\<open>this\<close> pointer, so a call needs no receiver here.
\<close>

datatype call = Call_get_target_default_instance | Call_power_on | Call_power_off

datatype result = Ret_instance addr | Ret_status nsapi_error_t

fun step :: "config \<Rightarrow> 'hw onboard_modem_api \<Rightarrow> call \<Rightarrow> 'hw process \<Rightarrow> result \<times> 'hw process" where
  "step cfg api Call_get_target_default_instance s =
     (case get_target_default_instance cfg s of (p, s') \<Rightarrow> (Ret_instance p, s'))"
| "step cfg api Call_power_on s =
     (case power_on api s of (e, s') \<Rightarrow> (Ret_status e, s'))"
| "step cfg api Call_power_off s =
     (case power_off api s of (e, s') \<Rightarrow> (Ret_status e, s'))"

fun run :: "config \<Rightarrow> 'hw onboard_modem_api \<Rightarrow> call list \<Rightarrow> 'hw process \<Rightarrow> result list \<times> 'hw process" where
  "run cfg api [] s = ([], s)"
| "run cfg api (c # cs) s =
     (case step cfg api c s of (r, s1) \<Rightarrow>
        (case run cfg api cs s1 of (rs, s2) \<Rightarrow> (r # rs, s2)))"

text \<open>Recognisers for the events the properties below count.\<close>

fun is_set_flow_control :: "event \<Rightarrow> bool" where
  "is_set_flow_control (Ev_set_flow_control m a b) = True"
| "is_set_flow_control _ = False"

fun is_ctor :: "event \<Rightarrow> bool" where
  "is_ctor (Ev_UARTSerial_ctor t r b) = True"
| "is_ctor (Ev_ONBOARD_SARA4_PPP_ctor p) = True"
| "is_ctor _ = False"

fun is_flow_event :: "event \<Rightarrow> bool" where
  "is_flow_event (Ev_tr_info f a b) = True"
| "is_flow_event (Ev_set_flow_control m a b) = True"
| "is_flow_event _ = False"

text \<open>What the transport was constructed from.\<close>

definition pins_baud :: "UARTSerial \<Rightarrow> PinName \<times> PinName \<times> int" where
  "pins_baud u = (tx u, rx u, baud u)"

text \<open>The number of calls of the accessor in a sequence of calls.\<close>

definition gets :: "call list \<Rightarrow> nat" where
  "gets cs = length (filter (\<lambda>c. c = Call_get_target_default_instance) cs)"

text \<open>Flow control is configured: the flag is on and neither pin is \<^verbatim>\<open>NC\<close>.\<close>

definition fc_configured :: "config \<Rightarrow> bool" where
  "fc_configured cfg \<longleftrightarrow> DEVICE_SERIAL_FC cfg \<and> MDMRTS cfg \<noteq> NC \<and> MDMCTS cfg \<noteq> NC"

subsection \<open>Concrete configurations\<close>

text \<open>
  A target with flow control on pins 0 and 1 at 115200 baud, the same target built without
  the feature flag, and the same target with the RTS pin left unconnected. The hooks of the
  example only record whether the modem is powered.
\<close>

definition example_config :: config where
  "example_config = \<lparr>DEVICE_SERIAL_FC = True, MDMTXD = Pin 2, MDMRXD = Pin 3,
     MDMRTS = Pin 0, MDMCTS = Pin 1, MBED_CONF_SARA4_PPP_BAUDRATE = 115200\<rparr>"

definition config_no_fc :: config where
  "config_no_fc = example_config\<lparr>DEVICE_SERIAL_FC := False\<rparr>"

definition config_rts_nc :: config where
  "config_rts_nc = example_config\<lparr>MDMRTS := NC\<rparr>"

definition example_api :: "bool onboard_modem_api" where
  "example_api = \<lparr>onboard_modem_init = (\<lambda>h. h), onboard_modem_deinit = (\<lambda>h. h),
     onboard_modem_power_up = (\<lambda>h. True), onboard_modem_power_down = (\<lambda>h. False)\<rparr>"

definition example_calls :: "call list" where
  "example_calls =
     [Call_power_on, Call_get_target_default_instance, Call_power_off,
      Call_get_target_default_instance, Call_get_target_default_instance]"

section \<open>Effect of one call and of a sequence of calls\<close>

text \<open>What one call of the accessor does to the trace and to the two statics.\<close>

lemma get_trace:
  "trace (snd (get_target_default_instance cfg s)) =
     trace s
     @ (if serial s = None
        then [Ev_UARTSerial_ctor (MDMTXD cfg) (MDMRXD cfg) (MBED_CONF_SARA4_PPP_BAUDRATE cfg)] else [])
     @ (if fc_configured cfg
        then [Ev_tr_info ''Modem flow control: RTS %d CTS %d'' (MDMRTS cfg) (MDMCTS cfg),
              Ev_set_flow_control RTSCTS (MDMRTS cfg) (MDMCTS cfg)] else [])
     @ (if device s = None then [Ev_ONBOARD_SARA4_PPP_ctor Static_serial] else [])"
  by (simp add: get_target_default_instance_def Let_def static_serial_def static_device_def
      set_flow_control_def tr_info_def emit_def fc_configured_def split: option.splits)

lemma get_device:
  "device (snd (get_target_default_instance cfg s)) =
     Some (case device s of None \<Rightarrow> \<lparr>fh = Static_serial\<rparr> | Some d \<Rightarrow> d)"
  by (simp add: get_target_default_instance_def Let_def static_serial_def static_device_def
      set_flow_control_def tr_info_def emit_def split: option.splits)

lemma get_serial:
  "serial (snd (get_target_default_instance cfg s)) =
     (let u = (case serial s of
                 None \<Rightarrow> UARTSerial_ctor (MDMTXD cfg) (MDMRXD cfg) (MBED_CONF_SARA4_PPP_BAUDRATE cfg)
               | Some u \<Rightarrow> u)
      in Some (if fc_configured cfg
               then u\<lparr>flow := RTSCTS, flow1 := MDMRTS cfg, flow2 := MDMCTS cfg\<rparr> else u))"
  by (simp add: get_target_default_instance_def Let_def static_serial_def static_device_def
      set_flow_control_def tr_info_def emit_def fc_configured_def split: option.splits)

text \<open>The state after a sequence of calls, one call at a time.\<close>

lemma run_snd_Cons: "snd (run cfg api (c # cs) s) = snd (run cfg api cs (snd (step cfg api c s)))"
  by (simp split: prod.splits)

lemma run_fst_Cons:
  "fst (run cfg api (c # cs) s) = fst (step cfg api c s) # fst (run cfg api cs (snd (step cfg api c s)))"
  by (simp split: prod.splits)

lemma step_snd:
  "snd (step cfg api c s) =
     (case c of Call_get_target_default_instance \<Rightarrow> snd (get_target_default_instance cfg s)
      | Call_power_on \<Rightarrow> snd (power_on api s)
      | Call_power_off \<Rightarrow> snd (power_off api s))"
  by (cases c) (simp_all split: prod.splits)

lemma step_fst:
  "fst (step cfg api c s) =
     (case c of Call_get_target_default_instance \<Rightarrow> Ret_instance Static_device
      | Call_power_on \<Rightarrow> Ret_status NSAPI_ERROR_OK
      | Call_power_off \<Rightarrow> Ret_status NSAPI_ERROR_OK)"
  by (cases c) (simp_all add: get_target_default_instance_def power_on_def power_off_def Let_def)

lemma power_on_state:
  "snd (power_on api s) =
     s\<lparr>trace := trace s @ [Ev_onboard_modem_init, Ev_onboard_modem_power_up],
       hw := onboard_modem_power_up api (onboard_modem_init api (hw s))\<rparr>"
  by (simp add: power_on_def call_hook_def emit_def Let_def)

lemma power_off_state:
  "snd (power_off api s) =
     s\<lparr>trace := trace s @ [Ev_onboard_modem_power_down, Ev_onboard_modem_deinit],
       hw := onboard_modem_deinit api (onboard_modem_power_down api (hw s))\<rparr>"
  by (simp add: power_off_def call_hook_def emit_def Let_def)

lemma gets_Nil: "gets [] = 0"
  by (simp add: gets_def)

lemma gets_Cons:
  "gets (c # cs) = (if c = Call_get_target_default_instance then Suc (gets cs) else gets cs)"
  by (simp add: gets_def)

lemma step_trace_filter:
  "filter P (trace (snd (step cfg api c s))) =
     filter P (trace s) @
     filter P (case c of
        Call_get_target_default_instance \<Rightarrow>
          (if serial s = None
           then [Ev_UARTSerial_ctor (MDMTXD cfg) (MDMRXD cfg) (MBED_CONF_SARA4_PPP_BAUDRATE cfg)] else [])
          @ (if fc_configured cfg
             then [Ev_tr_info ''Modem flow control: RTS %d CTS %d'' (MDMRTS cfg) (MDMCTS cfg),
                   Ev_set_flow_control RTSCTS (MDMRTS cfg) (MDMCTS cfg)] else [])
          @ (if device s = None then [Ev_ONBOARD_SARA4_PPP_ctor Static_serial] else [])
      | Call_power_on \<Rightarrow> [Ev_onboard_modem_init, Ev_onboard_modem_power_up]
      | Call_power_off \<Rightarrow> [Ev_onboard_modem_power_down, Ev_onboard_modem_deinit])"
  by (cases c) (simp_all add: step_snd get_trace power_on_state power_off_state del: step.simps)

lemma step_device:
  "device (snd (step cfg api c s)) =
     (if c = Call_get_target_default_instance
      then Some (case device s of None \<Rightarrow> \<lparr>fh = Static_serial\<rparr> | Some d \<Rightarrow> d)
      else device s)"
  by (cases c) (simp_all add: step_snd get_device power_on_state power_off_state del: step.simps)

lemma step_serial:
  "map_option pins_baud (serial (snd (step cfg api c s))) =
     (if c = Call_get_target_default_instance
      then Some (case serial s of
                   None \<Rightarrow> (MDMTXD cfg, MDMRXD cfg, MBED_CONF_SARA4_PPP_BAUDRATE cfg)
                 | Some u \<Rightarrow> pins_baud u)
      else map_option pins_baud (serial s))"
  by (cases c)
    (simp_all add: step_snd get_serial power_on_state power_off_state pins_baud_def
      UARTSerial_ctor_def Let_def del: step.simps split: option.splits)

lemma run_sfc:
  "filter is_set_flow_control (trace (snd (run cfg api cs s))) =
     filter is_set_flow_control (trace s) @
     (if fc_configured cfg
      then replicate (gets cs) (Ev_set_flow_control RTSCTS (MDMRTS cfg) (MDMCTS cfg)) else [])"
proof (induction cs arbitrary: s)
  case Nil
  show ?case by (simp add: gets_Nil)
next
  case (Cons c cs)
  show ?case
    by (cases c) (simp_all add: run_snd_Cons Cons.IH step_trace_filter gets_Cons del: run.simps step.simps)
qed

lemma run_flow_events:
  "filter is_flow_event (trace (snd (run cfg api cs s))) =
     filter is_flow_event (trace s) @
     (if fc_configured cfg
      then concat (replicate (gets cs)
             [Ev_tr_info ''Modem flow control: RTS %d CTS %d'' (MDMRTS cfg) (MDMCTS cfg),
              Ev_set_flow_control RTSCTS (MDMRTS cfg) (MDMCTS cfg)]) else [])"
proof (induction cs arbitrary: s)
  case Nil
  show ?case by (simp add: gets_Nil)
next
  case (Cons c cs)
  show ?case
    by (cases c) (simp_all add: run_snd_Cons Cons.IH step_trace_filter gets_Cons del: run.simps step.simps)
qed

lemma run_device:
  "device (snd (run cfg api cs s)) =
     (if gets cs = 0 then device s
      else Some (case device s of None \<Rightarrow> \<lparr>fh = Static_serial\<rparr> | Some d \<Rightarrow> d))"
proof (induction cs arbitrary: s)
  case Nil
  show ?case by (simp add: gets_Nil)
next
  case (Cons c cs)
  show ?case
    by (simp add: run_snd_Cons Cons.IH step_device gets_Cons del: run.simps step.simps split: option.splits)
qed

lemma run_serial:
  "map_option pins_baud (serial (snd (run cfg api cs s))) =
     (if gets cs = 0 then map_option pins_baud (serial s)
      else Some (case serial s of
                   None \<Rightarrow> (MDMTXD cfg, MDMRXD cfg, MBED_CONF_SARA4_PPP_BAUDRATE cfg)
                 | Some u \<Rightarrow> pins_baud u))"
proof (induction cs arbitrary: s)
  case Nil
  show ?case by (simp add: gets_Nil)
next
  case (Cons c cs)
  show ?case
    using step_serial [of cfg api c s]
    by (auto simp add: run_snd_Cons Cons.IH gets_Cons simp del: run.simps step.simps split: option.splits if_splits)
qed

lemma step_serial_None:
  "serial (snd (step cfg api c s)) = None \<longleftrightarrow> c \<noteq> Call_get_target_default_instance \<and> serial s = None"
  using step_serial [of cfg api c s] by (auto split: if_splits)

lemma step_device_None:
  "device (snd (step cfg api c s)) = None \<longleftrightarrow> c \<noteq> Call_get_target_default_instance \<and> device s = None"
  by (simp add: step_device del: step.simps)

lemma run_ctor:
  "filter is_ctor (trace (snd (run cfg api cs s))) =
     filter is_ctor (trace s) @
     (if gets cs = 0 then []
      else (if serial s = None
            then [Ev_UARTSerial_ctor (MDMTXD cfg) (MDMRXD cfg) (MBED_CONF_SARA4_PPP_BAUDRATE cfg)] else [])
           @ (if device s = None then [Ev_ONBOARD_SARA4_PPP_ctor Static_serial] else []))"
proof (induction cs arbitrary: s)
  case Nil
  show ?case by (simp add: gets_Nil)
next
  case (Cons c cs)
  show ?case
    by (cases c)
      (simp_all add: run_snd_Cons Cons.IH step_trace_filter gets_Cons step_serial_None
        step_device_None del: run.simps step.simps)
qed

lemma run_results:
  "i < length cs \<Longrightarrow> cs ! i = Call_get_target_default_instance \<Longrightarrow>
     fst (run cfg api cs s) ! i = Ret_instance Static_device"
proof (induction cs arbitrary: i s)
  case Nil
  then show ?case by simp
next
  case (Cons c cs)
  show ?case
  proof (cases i)
    case 0
    with Cons.prems show ?thesis by (simp add: run_fst_Cons step_fst del: run.simps step.simps)
  next
    case (Suc k)
    with Cons.prems have "k < length cs" "cs ! k = Call_get_target_default_instance" by simp_all
    then have "fst (run cfg api cs (snd (step cfg api c s))) ! k = Ret_instance Static_device"
      by (rule Cons.IH)
    with Suc show ?thesis by (simp add: run_fst_Cons del: run.simps step.simps)
  qed
qed

lemma gets_take:
  "i < length cs \<Longrightarrow> cs ! i = Call_get_target_default_instance \<Longrightarrow> gets (take (Suc i) cs) \<noteq> 0"
proof -
  assume "i < length cs" "cs ! i = Call_get_target_default_instance"
  then have "Call_get_target_default_instance \<in> set (take (Suc i) cs)"
    by (auto simp add: in_set_conv_nth intro!: exI [of _ i])
  then show ?thesis
    by (simp add: gets_def filter_empty_conv)
qed


lemma run_append:
  "snd (run cfg api (cs @ ds) s) = snd (run cfg api ds (snd (run cfg api cs s)))"
  by (induction cs arbitrary: s) (simp_all add: run_snd_Cons del: run.simps(2) step.simps)

lemma run_serial_None:
  "serial (snd (run cfg api cs s)) = None \<longleftrightarrow> gets cs = 0 \<and> serial s = None"
  using run_serial [of cfg api cs s] by (auto split: if_splits)

section \<open>The power operations\<close>

text \<open>
  C3. \<^verbatim>\<open>power_on\<close> returns \<^verbatim>\<open>NSAPI_ERROR_OK\<close> whatever the hooks do to the
  hardware and in whatever state it is called: nothing a hook does reaches the return value.
\<close>

theorem power_on_returns_ok: "fst (power_on api s) = NSAPI_ERROR_OK"
  by (simp add: power_on_def Let_def)

text \<open>
  C4. \<^verbatim>\<open>power_off\<close> returns \<^verbatim>\<open>NSAPI_ERROR_OK\<close> whatever the hooks do to the
  hardware and in whatever state it is called.
\<close>

theorem power_off_returns_ok: "fst (power_off api s) = NSAPI_ERROR_OK"
  by (simp add: power_off_def Let_def)

text \<open>
  C5. A call of \<^verbatim>\<open>power_on\<close> makes exactly two hook calls, first
  \<^verbatim>\<open>onboard_modem_init\<close> and then \<^verbatim>\<open>onboard_modem_power_up\<close>: the trace grows
  by these two events in this order, the hardware is the result of the two hooks applied in
  this order, and the statics are untouched.
\<close>

theorem power_on_hooks_in_order:
  "trace (snd (power_on api s)) = trace s @ [Ev_onboard_modem_init, Ev_onboard_modem_power_up]
   \<and> hw (snd (power_on api s)) = onboard_modem_power_up api (onboard_modem_init api (hw s))
   \<and> serial (snd (power_on api s)) = serial s
   \<and> device (snd (power_on api s)) = device s"
  by (simp add: power_on_def call_hook_def emit_def Let_def)

text \<open>
  C6. A call of \<^verbatim>\<open>power_off\<close> makes exactly two hook calls, first
  \<^verbatim>\<open>onboard_modem_power_down\<close> and then \<^verbatim>\<open>onboard_modem_deinit\<close>: the trace
  grows by these two events in this order, the hardware is the result of the two hooks applied
  in this order, and the statics are untouched.
\<close>

theorem power_off_hooks_in_order:
  "trace (snd (power_off api s)) = trace s @ [Ev_onboard_modem_power_down, Ev_onboard_modem_deinit]
   \<and> hw (snd (power_off api s)) = onboard_modem_deinit api (onboard_modem_power_down api (hw s))
   \<and> serial (snd (power_off api s)) = serial s
   \<and> device (snd (power_off api s)) = device s"
  by (simp add: power_off_def call_hook_def emit_def Let_def)

section \<open>The accessor\<close>

text \<open>
  C1, in the form that holds of the code. With the feature flag on and both flow-control pins connected, a sequence
  of calls started in the initial process state invokes \<^verbatim>\<open>set_flow_control\<close> once in
  every call of the accessor, each time with mode \<^verbatim>\<open>RTSCTS\<close> and the configured
  RTS and CTS pins; and the first call of the accessor constructs the transport, logs,
  invokes \<^verbatim>\<open>set_flow_control\<close> and only then constructs the adapter it returns.
\<close>

theorem flow_control_once_per_call:
  assumes "fc_configured cfg"
  shows "filter is_set_flow_control (trace (snd (run cfg api cs (init_process h)))) =
           replicate (gets cs) (Ev_set_flow_control RTSCTS (MDMRTS cfg) (MDMCTS cfg))
         \<and> (gets pre = 0 \<longrightarrow>
              trace (snd (run cfg api (pre @ [Call_get_target_default_instance]) (init_process h))) =
                trace (snd (run cfg api pre (init_process h))) @
                [Ev_UARTSerial_ctor (MDMTXD cfg) (MDMRXD cfg) (MBED_CONF_SARA4_PPP_BAUDRATE cfg),
                 Ev_tr_info ''Modem flow control: RTS %d CTS %d'' (MDMRTS cfg) (MDMCTS cfg),
                 Ev_set_flow_control RTSCTS (MDMRTS cfg) (MDMCTS cfg),
                 Ev_ONBOARD_SARA4_PPP_ctor Static_serial])"
proof
  show "filter is_set_flow_control (trace (snd (run cfg api cs (init_process h)))) =
          replicate (gets cs) (Ev_set_flow_control RTSCTS (MDMRTS cfg) (MDMCTS cfg))"
    using assms by (simp add: run_sfc init_process_def)
next
  show "gets pre = 0 \<longrightarrow>
          trace (snd (run cfg api (pre @ [Call_get_target_default_instance]) (init_process h))) =
            trace (snd (run cfg api pre (init_process h))) @
            [Ev_UARTSerial_ctor (MDMTXD cfg) (MDMRXD cfg) (MBED_CONF_SARA4_PPP_BAUDRATE cfg),
             Ev_tr_info ''Modem flow control: RTS %d CTS %d'' (MDMRTS cfg) (MDMCTS cfg),
             Ev_set_flow_control RTSCTS (MDMRTS cfg) (MDMCTS cfg),
             Ev_ONBOARD_SARA4_PPP_ctor Static_serial]"
  proof
    assume pre: "gets pre = 0"
    let ?s = "snd (run cfg api pre (init_process h))"
    have "serial ?s = None"
      using pre by (simp add: run_serial_None init_process_def)
    moreover have "device ?s = None"
      using pre by (simp add: run_device init_process_def)
    ultimately show
      "trace (snd (run cfg api (pre @ [Call_get_target_default_instance]) (init_process h))) =
         trace ?s @
         [Ev_UARTSerial_ctor (MDMTXD cfg) (MDMRXD cfg) (MBED_CONF_SARA4_PPP_BAUDRATE cfg),
          Ev_tr_info ''Modem flow control: RTS %d CTS %d'' (MDMRTS cfg) (MDMCTS cfg),
          Ev_set_flow_control RTSCTS (MDMRTS cfg) (MDMCTS cfg),
          Ev_ONBOARD_SARA4_PPP_ctor Static_serial]"
      using assms by (simp add: run_append run_snd_Cons step_snd get_trace del: run.simps(2) step.simps)
  qed
qed

text \<open>An instance with three calls of the accessor among five calls.\<close>

theorem flow_control_once_per_call_witness:
  "fc_configured example_config
   \<and> filter is_set_flow_control
       (trace (snd (run example_config example_api
          [Call_power_on, Call_get_target_default_instance, Call_power_off,
           Call_get_target_default_instance, Call_get_target_default_instance]
          (init_process False)))) =
     [Ev_set_flow_control RTSCTS (Pin 0) (Pin 1), Ev_set_flow_control RTSCTS (Pin 0) (Pin 1),
      Ev_set_flow_control RTSCTS (Pin 0) (Pin 1)]
   \<and> gets [Call_power_on] = 0
   \<and> trace (snd (run example_config example_api
         ([Call_power_on] @ [Call_get_target_default_instance]) (init_process False))) =
     trace (snd (run example_config example_api [Call_power_on] (init_process False))) @
     [Ev_UARTSerial_ctor (Pin 2) (Pin 3) 115200,
      Ev_tr_info ''Modem flow control: RTS %d CTS %d'' (Pin 0) (Pin 1),
      Ev_set_flow_control RTSCTS (Pin 0) (Pin 1),
      Ev_ONBOARD_SARA4_PPP_ctor Static_serial]"
proof -
  have fc: "fc_configured example_config"
    by (simp add: fc_configured_def example_config_def)
  have g: "gets [Call_power_on, Call_get_target_default_instance, Call_power_off,
           Call_get_target_default_instance, Call_get_target_default_instance] = 3"
    by (simp add: gets_def)
  have p: "gets [Call_power_on] = 0"
    by (simp add: gets_def)
  show ?thesis
    using fc p g
      flow_control_once_per_call [OF fc, of example_api
        "[Call_power_on, Call_get_target_default_instance, Call_power_off,
          Call_get_target_default_instance, Call_get_target_default_instance]" False
        "[Call_power_on]"]
    by (simp add: example_config_def numeral_3_eq_3 del: run.simps step.simps)
qed

text \<open>
  Two calls of the accessor invoke \<^verbatim>\<open>set_flow_control\<close> twice, so "exactly once over
  any sequence of calls" does not hold.
\<close>

theorem flow_control_exactly_once_counterexample:
  "fc_configured example_config
   \<and> length (filter is_set_flow_control
        (trace (snd (run example_config example_api
           [Call_get_target_default_instance, Call_get_target_default_instance]
           (init_process False))))) \<noteq> 1"
  by (simp add: fc_configured_def example_config_def get_target_default_instance_def
      static_serial_def static_device_def set_flow_control_def tr_info_def emit_def
      init_process_def Let_def)

text \<open>
  C2. In any sequence of calls started in any state, two calls of the accessor return the
  same pointer, the address of the static \<^verbatim>\<open>device\<close>; and the object held by that
  static is the same after both calls.
\<close>

theorem default_instance_identical:
  assumes "i < length cs" and "j < length cs"
    and "cs ! i = Call_get_target_default_instance"
    and "cs ! j = Call_get_target_default_instance"
  shows "fst (run cfg api cs s) ! i = fst (run cfg api cs s) ! j
         \<and> fst (run cfg api cs s) ! i = Ret_instance Static_device
         \<and> device (snd (run cfg api (take (Suc i) cs) s)) =
             device (snd (run cfg api (take (Suc j) cs) s))
         \<and> device (snd (run cfg api (take (Suc i) cs) s)) \<noteq> None"
proof -
  have ri: "fst (run cfg api cs s) ! i = Ret_instance Static_device"
    using assms(1,3) by (rule run_results)
  have rj: "fst (run cfg api cs s) ! j = Ret_instance Static_device"
    using assms(2,4) by (rule run_results)
  have gi: "gets (take (Suc i) cs) \<noteq> 0"
    using assms(1,3) by (rule gets_take)
  have gj: "gets (take (Suc j) cs) \<noteq> 0"
    using assms(2,4) by (rule gets_take)
  show ?thesis
    using ri rj gi gj by (simp add: run_device)
qed

text \<open>An instance: the second and the fifth of five calls.\<close>

theorem default_instance_identical_witness:
  "(1::nat) < length example_calls \<and> (4::nat) < length example_calls
   \<and> example_calls ! 1 = Call_get_target_default_instance
   \<and> example_calls ! 4 = Call_get_target_default_instance
   \<and> fst (run example_config example_api example_calls (init_process False)) ! 1 =
       fst (run example_config example_api example_calls (init_process False)) ! 4
   \<and> fst (run example_config example_api example_calls (init_process False)) ! 1 =
       Ret_instance Static_device
   \<and> device (snd (run example_config example_api (take (Suc 1) example_calls) (init_process False))) =
       device (snd (run example_config example_api (take (Suc 4) example_calls) (init_process False)))
   \<and> device (snd (run example_config example_api (take (Suc 1) example_calls) (init_process False)))
       \<noteq> None"
proof -
  have a: "(1::nat) < length example_calls" "(4::nat) < length example_calls"
    by (simp_all add: example_calls_def)
  have b: "example_calls ! 1 = Call_get_target_default_instance"
    "example_calls ! 4 = Call_get_target_default_instance"
    by (simp_all add: example_calls_def)
  show ?thesis
    using a b
      default_instance_identical [OF a b, of example_config example_api "init_process False"]
    by blast
qed

text \<open>
  C7. Without the feature flag \<^verbatim>\<open>DEVICE_SERIAL_FC\<close>, no sequence of calls adds a
  \<^verbatim>\<open>set_flow_control\<close> event to the trace, whatever the RTS and CTS pins are; started in
  the initial state the trace has none.
\<close>

theorem no_flow_control_without_feature:
  assumes "\<not> DEVICE_SERIAL_FC cfg"
  shows "filter is_set_flow_control (trace (snd (run cfg api cs s))) =
           filter is_set_flow_control (trace s)
         \<and> filter is_set_flow_control (trace (snd (run cfg api cs (init_process h)))) = []"
  using assms by (simp add: run_sfc fc_configured_def init_process_def)

text \<open>An instance with both pins connected and the flag off.\<close>

theorem no_flow_control_without_feature_witness:
  "\<not> DEVICE_SERIAL_FC config_no_fc \<and> MDMRTS config_no_fc \<noteq> NC \<and> MDMCTS config_no_fc \<noteq> NC
   \<and> filter is_set_flow_control
       (trace (snd (run config_no_fc example_api example_calls (init_process False)))) = []"
proof -
  have f: "\<not> DEVICE_SERIAL_FC config_no_fc"
    by (simp add: config_no_fc_def example_config_def)
  have p: "MDMRTS config_no_fc \<noteq> NC" "MDMCTS config_no_fc \<noteq> NC"
    by (simp_all add: config_no_fc_def example_config_def)
  show ?thesis
    using f p
      no_flow_control_without_feature [OF f, of example_api example_calls "init_process False" False]
    by blast
qed

text \<open>
  C8. With the feature flag on and the RTS pin or the CTS pin equal to \<^verbatim>\<open>NC\<close>, no
  sequence of calls adds a \<^verbatim>\<open>set_flow_control\<close> event to the trace; started in the
  initial state the trace has none.
\<close>

theorem no_flow_control_with_unconnected_pin:
  assumes "DEVICE_SERIAL_FC cfg" and "MDMRTS cfg = NC \<or> MDMCTS cfg = NC"
  shows "filter is_set_flow_control (trace (snd (run cfg api cs s))) =
           filter is_set_flow_control (trace s)
         \<and> filter is_set_flow_control (trace (snd (run cfg api cs (init_process h)))) = []"
  using assms by (auto simp add: run_sfc fc_configured_def init_process_def)

text \<open>An instance with the RTS pin unconnected.\<close>

theorem no_flow_control_with_unconnected_pin_witness:
  "DEVICE_SERIAL_FC config_rts_nc \<and> (MDMRTS config_rts_nc = NC \<or> MDMCTS config_rts_nc = NC)
   \<and> filter is_set_flow_control
       (trace (snd (run config_rts_nc example_api example_calls (init_process False)))) = []"
proof -
  have f: "DEVICE_SERIAL_FC config_rts_nc"
    by (simp add: config_rts_nc_def example_config_def)
  have n: "MDMRTS config_rts_nc = NC \<or> MDMCTS config_rts_nc = NC"
    by (simp add: config_rts_nc_def example_config_def)
  show ?thesis
    using f n
      no_flow_control_with_unconnected_pin [OF f n, of example_api example_calls "init_process False" False]
    by blast
qed

text \<open>
  C9. After any sequence of calls started in the initial process state: if the accessor has
  not been called, neither constructor has run and both statics are unconstructed; otherwise
  the constructors have run exactly once each, the transport first, with the transmit pin, the
  receive pin and the baud rate of the configuration, then the adapter on the address of that
  transport, and both statics hold these objects, whatever calls came later.
\<close>

theorem statics_constructed_once:
  "filter is_ctor (trace (snd (run cfg api cs (init_process h)))) =
     (if gets cs = 0 then []
      else [Ev_UARTSerial_ctor (MDMTXD cfg) (MDMRXD cfg) (MBED_CONF_SARA4_PPP_BAUDRATE cfg),
            Ev_ONBOARD_SARA4_PPP_ctor Static_serial])
   \<and> map_option pins_baud (serial (snd (run cfg api cs (init_process h)))) =
     (if gets cs = 0 then None
      else Some (MDMTXD cfg, MDMRXD cfg, MBED_CONF_SARA4_PPP_BAUDRATE cfg))
   \<and> device (snd (run cfg api cs (init_process h))) =
     (if gets cs = 0 then None else Some \<lparr>fh = Static_serial\<rparr>)"
  by (simp add: run_ctor run_serial run_device init_process_def)

text \<open>
  C10. With the feature flag on and both flow-control pins connected, a call of the accessor
  in any state, constructed statics or not, logs the flow-control line and invokes
  \<^verbatim>\<open>set_flow_control\<close> with mode \<^verbatim>\<open>RTSCTS\<close> and the configured pins on the static
  transport, which then has this setting; a sequence of calls adds one such pair of events
  for each call of the accessor.
\<close>

theorem flow_control_on_every_call:
  assumes "fc_configured cfg"
  shows "trace (snd (get_target_default_instance cfg s)) =
           trace s
           @ (if serial s = None
              then [Ev_UARTSerial_ctor (MDMTXD cfg) (MDMRXD cfg) (MBED_CONF_SARA4_PPP_BAUDRATE cfg)]
              else [])
           @ [Ev_tr_info ''Modem flow control: RTS %d CTS %d'' (MDMRTS cfg) (MDMCTS cfg),
              Ev_set_flow_control RTSCTS (MDMRTS cfg) (MDMCTS cfg)]
           @ (if device s = None then [Ev_ONBOARD_SARA4_PPP_ctor Static_serial] else [])
         \<and> map_option (\<lambda>u. (flow u, flow1 u, flow2 u)) (serial (snd (get_target_default_instance cfg s))) =
             Some (RTSCTS, MDMRTS cfg, MDMCTS cfg)
         \<and> filter is_flow_event (trace (snd (run cfg api cs s))) =
             filter is_flow_event (trace s) @
             concat (replicate (gets cs)
               [Ev_tr_info ''Modem flow control: RTS %d CTS %d'' (MDMRTS cfg) (MDMCTS cfg),
                Ev_set_flow_control RTSCTS (MDMRTS cfg) (MDMCTS cfg)])"
  using assms by (simp add: get_trace get_serial run_flow_events Let_def)

text \<open>An instance: a call of the accessor after the first one.\<close>

theorem flow_control_on_every_call_witness:
  "fc_configured example_config
   \<and> trace (snd (get_target_default_instance example_config
        (snd (get_target_default_instance example_config (init_process False))))) =
     trace (snd (get_target_default_instance example_config (init_process False)))
     @ [Ev_tr_info ''Modem flow control: RTS %d CTS %d'' (Pin 0) (Pin 1),
        Ev_set_flow_control RTSCTS (Pin 0) (Pin 1)]
   \<and> map_option (\<lambda>u. (flow u, flow1 u, flow2 u))
       (serial (snd (get_target_default_instance example_config
          (snd (get_target_default_instance example_config (init_process False)))))) =
     Some (RTSCTS, Pin 0, Pin 1)
   \<and> filter is_flow_event
       (trace (snd (run example_config example_api example_calls
          (snd (get_target_default_instance example_config (init_process False)))))) =
     filter is_flow_event (trace (snd (get_target_default_instance example_config (init_process False))))
     @ concat (replicate (gets example_calls)
         [Ev_tr_info ''Modem flow control: RTS %d CTS %d'' (Pin 0) (Pin 1),
          Ev_set_flow_control RTSCTS (Pin 0) (Pin 1)])"
proof -
  let ?s1 = "snd (get_target_default_instance example_config (init_process False))"
  have fc: "fc_configured example_config"
    by (simp add: fc_configured_def example_config_def)
  have s: "(serial ?s1 = None) = False" "(device ?s1 = None) = False"
    by (simp_all add: get_serial get_device Let_def)
  have c: "MDMRTS example_config = Pin 0" "MDMCTS example_config = Pin 1"
    by (simp_all add: example_config_def)
  show ?thesis
    using fc flow_control_on_every_call [OF fc, of ?s1 example_api example_calls]
    by (simp only: s c if_False append_Nil append_Nil2 simp_thms)
qed

end
